theory Spec2Isabelle
  imports Complex_Main "HOL-Library.Char_ord" "HOL-Library.List_Lexorder"
    "HOL-Library.Product_Lexorder" "HOL-Library.Sublist"
begin

section \<open>Prop-firm drawdown analysis: the two scripts\<close>

text \<open>
  The repository holds two drafts of one analysis, \<^verbatim>\<open>scripts/analyze-prop-firm.py\<close>
  (below: v1) and \<^verbatim>\<open>scripts/analyze-prop-firm-v2.py\<close> (below: v2). Both define
  \<^verbatim>\<open>analyze_csv\<close>, so every constant taken from a script carries the prefix of its
  file. Both read the rows of a CSV file, drop some, turn the others into trades with a
  net profit, and then check a daily loss limit per calendar day and a maximum drawdown
  of the simulated balance.

  Modelling decisions.
  \<^item> Amounts are Python floats in the source. They are modelled as exact rationals:
    rounding, infinities and NaN are outside the model.
  \<^item> The three library calls of the scripts, \<^verbatim>\<open>datetime.strptime(s, "%d/%m/%Y %H:%M:%S")\<close>,
    \<^verbatim>\<open>dt.strftime("%Y-%m-%d")\<close> and \<^verbatim>\<open>float(s)\<close>, are parameters of the model
    (the record \<open>pylib\<close>); a \<^verbatim>\<open>ValueError\<close> of the first and the last is the value
    \<open>None\<close>. Every general theorem holds for whatever these functions compute.
  \<^item> A row is what \<^verbatim>\<open>csv.DictReader\<close> yields for a file with the five columns the
    scripts read, each cell a text.
  \<^item> The module constants \<^verbatim>\<open>ACCOUNT_SIZE\<close> and \<^verbatim>\<open>DAILY_DD_PERCENT\<close> are passed
    explicitly as a \<open>config\<close>; \<open>script_config\<close> holds the values written in both files.
  \<^item> The whole body of \<^verbatim>\<open>analyze_csv\<close> sits in \<^verbatim>\<open>try: ... except Exception as e:
    print(f"Error: {e}")\<close>. Only the row loop can raise, and it runs before anything
    is printed, so a run either prints the error alone (\<open>Inl\<close>) or the whole report
    (\<open>Inr\<close>, the printed values collected in a record).
\<close>

subsection \<open>Data\<close>

text \<open>A naive \<^verbatim>\<open>datetime\<close>: year, month, day, hour, minute, second. Python compares
  two of them field by field in this order, which is the lexicographic order of the tuple.\<close>

type_synonym datetime = "nat \<times> nat \<times> nat \<times> nat \<times> nat \<times> nat"

record pylib =
  strptime :: "string \<Rightarrow> datetime option"
  strftime :: "datetime \<Rightarrow> string"
  float :: "string \<Rightarrow> rat option"

text \<open>Both exceptions are Python's \<^verbatim>\<open>ValueError\<close>; the constructor tells which call
  raised it, the argument is the text that could not be converted.\<close>

datatype error = StrptimeValueError string | FloatValueError string

record row =
  ID :: string
  Close_Time :: string
  Profit :: string
  Commission :: string
  Swap :: string

record config =
  ACCOUNT_SIZE :: rat
  DAILY_DD_PERCENT :: rat

definition script_config :: config where
  "script_config = \<lparr>ACCOUNT_SIZE = 5000, DAILY_DD_PERCENT = 4\<rparr>"

definition DAILY_LIMIT :: "config \<Rightarrow> rat" where
  "DAILY_LIMIT cfg = ACCOUNT_SIZE cfg * (DAILY_DD_PERCENT cfg / 100)"

text \<open>\<^verbatim>\<open>MAX_DD_LIMIT = ACCOUNT_SIZE * 0.08\<close>, a local of \<^verbatim>\<open>analyze_csv\<close> in both files.\<close>

definition MAX_DD_LIMIT :: "config \<Rightarrow> rat" where
  "MAX_DD_LIMIT cfg = ACCOUNT_SIZE cfg * (8 / 100)"

text \<open>\<^verbatim>\<open>float(row['Profit'] or 0)\<close>: an empty cell is falsy, so \<^verbatim>\<open>float(0)\<close> is taken
  and the text is never converted; any other text goes through \<^verbatim>\<open>float\<close>.\<close>

definition float_or_0 :: "pylib \<Rightarrow> string \<Rightarrow> error + rat" where
  "float_or_0 L s =
     (if s = [] then Inr 0
      else case float L s of None \<Rightarrow> Inl (FloatValueError s) | Some x \<Rightarrow> Inr x)"

text \<open>\<^verbatim>\<open>trades_by_day\<close> is a dict from day text to a list of trades. Python dicts keep
  insertion order; the model is an association list with one entry per key.
  \<open>dict_append d t\<close> is \<^verbatim>\<open>if d not in trades_by_day: trades_by_day[d] = []\<close> followed by
  \<^verbatim>\<open>trades_by_day[d].append(t)\<close>.\<close>

type_synonym 'a dict = "(string \<times> 'a list) list"

fun dict_append :: "string \<Rightarrow> 'a \<Rightarrow> 'a dict \<Rightarrow> 'a dict" where
  "dict_append d t [] = [(d, [t])]"
| "dict_append d t ((k, ts) # m) =
     (if d = k then (k, ts @ [t]) # m else (k, ts) # dict_append d t m)"

text \<open>\<^verbatim>\<open>trades_by_day[day]\<close>. Both scripts only look up keys drawn from the dict itself,
  so the \<^verbatim>\<open>KeyError\<close> of a missing key cannot happen (lemma \<open>getitem_dict_append\<close> and
  those after it); the first equation is that unreachable case.\<close>

fun getitem :: "'a dict \<Rightarrow> string \<Rightarrow> 'a list" where
  "getitem [] day = []"
| "getitem ((k, ts) # m) day = (if day = k then ts else getitem m day)"

text \<open>\<^verbatim>\<open>day_loss = abs(day_pnl) if day_pnl < 0 else 0\<close>, the same line in both files.\<close>

definition day_loss_of :: "rat \<Rightarrow> rat" where
  "day_loss_of day_pnl = (if day_pnl < 0 then \<bar>day_pnl\<bar> else 0)"

subsection \<open>v2: \<^verbatim>\<open>scripts/analyze-prop-firm-v2.py\<close>\<close>

text \<open>\<^verbatim>\<open>parse_datetime\<close> catches the \<^verbatim>\<open>ValueError\<close> of \<^verbatim>\<open>strptime\<close> and returns
  \<^verbatim>\<open>None\<close>.\<close>

definition parse_datetime :: "pylib \<Rightarrow> string \<Rightarrow> datetime option" where
  "parse_datetime L date_str =
     (case strptime L date_str of Some dt \<Rightarrow> Some dt | None \<Rightarrow> None)"

record v2_trade =
  v2_dt :: datetime
  v2_date_str :: string
  v2_net_pnl :: rat
  v2_id :: string

text \<open>The body of the row loop (lines 27 to 46): \<open>Inr None\<close> is \<^verbatim>\<open>continue\<close>,
  \<open>Inr (Some t)\<close> the trade appended to \<^verbatim>\<open>all_trades\<close>, \<open>Inl e\<close> an exception that
  leaves the loop.\<close>

definition v2_row :: "pylib \<Rightarrow> row \<Rightarrow> error + v2_trade option" where
  "v2_row L r =
     (if ID r = ''Total'' then Inr None
      else if Close_Time r = [] then Inr None
      else case parse_datetime L (Close_Time r) of
        None \<Rightarrow> Inr None
      | Some dt \<Rightarrow>
          (case float_or_0 L (Profit r) of Inl e \<Rightarrow> Inl e | Inr profit \<Rightarrow>
          (case float_or_0 L (Commission r) of Inl e \<Rightarrow> Inl e | Inr commission \<Rightarrow>
          (case float_or_0 L (Swap r) of Inl e \<Rightarrow> Inl e | Inr swap \<Rightarrow>
             Inr (Some \<lparr>v2_dt = dt, v2_date_str = strftime L dt,
                        v2_net_pnl = profit + commission + swap, v2_id = ID r\<rparr>)))))"

fun v2_read_rows :: "pylib \<Rightarrow> row list \<Rightarrow> v2_trade list \<Rightarrow> error + v2_trade list" where
  "v2_read_rows L [] all_trades = Inr all_trades"
| "v2_read_rows L (r # rs) all_trades =
     (case v2_row L r of
        Inl e \<Rightarrow> Inl e
      | Inr None \<Rightarrow> v2_read_rows L rs all_trades
      | Inr (Some t) \<Rightarrow> v2_read_rows L rs (all_trades @ [t]))"

text \<open>Lines 57 to 61: grouping the sorted trades by \<^verbatim>\<open>date_str\<close>.\<close>

fun v2_group :: "v2_trade list \<Rightarrow> v2_trade dict \<Rightarrow> v2_trade dict" where
  "v2_group [] trades_by_day = trades_by_day"
| "v2_group (t # ts) trades_by_day = v2_group ts (dict_append (v2_date_str t) t trades_by_day)"

text \<open>Lines 74 to 77: the balance after every single trade, and the lowest one seen.\<close>

fun v2_balance_loop :: "v2_trade list \<Rightarrow> rat \<Rightarrow> rat \<Rightarrow> rat \<times> rat" where
  "v2_balance_loop [] current_balance min_balance = (current_balance, min_balance)"
| "v2_balance_loop (trade # rest) current_balance min_balance =
     (let current_balance = current_balance + v2_net_pnl trade;
          min_balance = (if current_balance < min_balance then current_balance else min_balance)
      in v2_balance_loop rest current_balance min_balance)"

record v2_day_result =
  v2_day :: string
  v2_day_pnl :: rat
  v2_day_loss :: rat
  v2_is_breached :: bool

text \<open>Lines 83 to 98: one printed block per day; \<^verbatim>\<open>violation_found\<close> and
  \<^verbatim>\<open>daily_vol_balance\<close> are threaded through.\<close>

fun v2_daily_loop ::
  "config \<Rightarrow> v2_trade dict \<Rightarrow> string list \<Rightarrow> bool \<Rightarrow> rat \<Rightarrow> v2_day_result list \<times> bool \<times> rat" where
  "v2_daily_loop cfg trades_by_day [] violation_found daily_vol_balance =
     ([], violation_found, daily_vol_balance)"
| "v2_daily_loop cfg trades_by_day (day # days) violation_found daily_vol_balance =
     (let day_trades = getitem trades_by_day day;
          day_pnl = sum_list (map v2_net_pnl day_trades);
          day_loss = day_loss_of day_pnl;
          is_breached = (day_loss > DAILY_LIMIT cfg);
          violation_found = (if is_breached then True else violation_found);
          daily_vol_balance = daily_vol_balance + day_pnl
      in case v2_daily_loop cfg trades_by_day days violation_found daily_vol_balance of
           (results, violation_found, daily_vol_balance) \<Rightarrow>
             (\<lparr>v2_day = day, v2_day_pnl = day_pnl, v2_day_loss = day_loss,
               v2_is_breached = is_breached\<rparr> # results,
              violation_found, daily_vol_balance))"

record v2_report =
  v2_days :: "v2_day_result list"
  v2_min_balance :: rat
  v2_max_dd_used :: rat
  v2_limit :: rat
  v2_violation_found :: bool

text \<open>\<^verbatim>\<open>all_trades.sort(key=lambda x: x['dt'])\<close> is a stable sort by the key, and so is
  \<open>sort_key\<close>; a stable sort has one possible result.\<close>

definition v2_all_trades :: "v2_trade list \<Rightarrow> v2_trade list" where
  "v2_all_trades trades = sort_key v2_dt trades"

definition v2_evaluate :: "config \<Rightarrow> v2_trade list \<Rightarrow> v2_report" where
  "v2_evaluate cfg all_trades =
     (let trades_by_day = v2_group all_trades [];
          min_balance = snd (v2_balance_loop all_trades (ACCOUNT_SIZE cfg) (ACCOUNT_SIZE cfg));
          sorted_days = sort (map fst trades_by_day);
          (results, violation_found, daily_vol_balance) =
             v2_daily_loop cfg trades_by_day sorted_days False (ACCOUNT_SIZE cfg);
          max_dd_used = ACCOUNT_SIZE cfg - min_balance;
          violation_found = (if max_dd_used > MAX_DD_LIMIT cfg then True else violation_found)
      in \<lparr>v2_days = results, v2_min_balance = min_balance, v2_max_dd_used = max_dd_used,
          v2_limit = MAX_DD_LIMIT cfg, v2_violation_found = violation_found\<rparr>)"

definition v2_analyze_csv :: "pylib \<Rightarrow> config \<Rightarrow> row list \<Rightarrow> error + v2_report" where
  "v2_analyze_csv L cfg rows =
     (case v2_read_rows L rows [] of
        Inl e \<Rightarrow> Inl e
      | Inr trades \<Rightarrow> Inr (v2_evaluate cfg (v2_all_trades trades)))"

subsection \<open>v1: \<^verbatim>\<open>scripts/analyze-prop-firm.py\<close>\<close>

text \<open>\<^verbatim>\<open>parse_date\<close> has no \<^verbatim>\<open>try\<close>: the \<^verbatim>\<open>ValueError\<close> of \<^verbatim>\<open>strptime\<close> leaves
  the function. Its result is the day text alone; the time of day is dropped.\<close>

definition parse_date :: "pylib \<Rightarrow> string \<Rightarrow> error + string" where
  "parse_date L date_str =
     (case strptime L date_str of
        None \<Rightarrow> Inl (StrptimeValueError date_str)
      | Some dt \<Rightarrow> Inr (strftime L dt))"

record v1_trade =
  v1_id :: string
  v1_net_pnl :: rat
  v1_time :: string

text \<open>The body of the row loop (lines 29 to 54): \<open>Inr None\<close> is \<^verbatim>\<open>continue\<close>,
  \<open>Inr (Some (day_str, t))\<close> the trade appended to \<^verbatim>\<open>trades_by_day[day_str]\<close>.\<close>

definition v1_row :: "pylib \<Rightarrow> row \<Rightarrow> error + (string \<times> v1_trade) option" where
  "v1_row L r =
     (if ID r = ''Total'' then Inr None
      else if Close_Time r = [] then Inr None
      else case parse_date L (Close_Time r) of
        Inl e \<Rightarrow> Inl e
      | Inr day_str \<Rightarrow>
          (case float_or_0 L (Profit r) of Inl e \<Rightarrow> Inl e | Inr profit \<Rightarrow>
          (case float_or_0 L (Commission r) of Inl e \<Rightarrow> Inl e | Inr commission \<Rightarrow>
          (case float_or_0 L (Swap r) of Inl e \<Rightarrow> Inl e | Inr swap \<Rightarrow>
             Inr (Some (day_str, \<lparr>v1_id = ID r, v1_net_pnl = profit + commission + swap,
                                  v1_time = Close_Time r\<rparr>))))))"

fun v1_read_rows :: "pylib \<Rightarrow> row list \<Rightarrow> v1_trade dict \<Rightarrow> error + v1_trade dict" where
  "v1_read_rows L [] trades_by_day = Inr trades_by_day"
| "v1_read_rows L (r # rs) trades_by_day =
     (case v1_row L r of
        Inl e \<Rightarrow> Inl e
      | Inr None \<Rightarrow> v1_read_rows L rs trades_by_day
      | Inr (Some (day_str, t)) \<Rightarrow> v1_read_rows L rs (dict_append day_str t trades_by_day))"

record v1_day_result =
  v1_day :: string
  v1_day_start_balance :: rat
  v1_day_pnl :: rat
  v1_n_trades :: nat
  v1_day_loss :: rat
  v1_is_breached :: bool

text \<open>Lines 67 to 91: one printed block per day; \<^verbatim>\<open>running_balance\<close> and
  \<^verbatim>\<open>violation_found\<close> are threaded through.\<close>

fun v1_daily_loop ::
  "config \<Rightarrow> v1_trade dict \<Rightarrow> string list \<Rightarrow> rat \<Rightarrow> bool \<Rightarrow> v1_day_result list \<times> rat \<times> bool" where
  "v1_daily_loop cfg trades_by_day [] running_balance violation_found =
     ([], running_balance, violation_found)"
| "v1_daily_loop cfg trades_by_day (day # days) running_balance violation_found =
     (let day_trades = getitem trades_by_day day;
          day_pnl = sum_list (map v1_net_pnl day_trades);
          day_start_balance = running_balance;
          day_end_balance = day_start_balance + day_pnl;
          day_loss = day_loss_of day_pnl;
          is_breached = (day_loss > DAILY_LIMIT cfg);
          violation_found = (if is_breached then True else violation_found);
          running_balance = day_end_balance
      in case v1_daily_loop cfg trades_by_day days running_balance violation_found of
           (results, running_balance, violation_found) \<Rightarrow>
             (\<lparr>v1_day = day, v1_day_start_balance = day_start_balance, v1_day_pnl = day_pnl,
               v1_n_trades = length day_trades, v1_day_loss = day_loss,
               v1_is_breached = is_breached\<rparr> # results,
              running_balance, violation_found))"

text \<open>Lines 105 to 119. The inner loop over the trades of the day is \<^verbatim>\<open>pass\<close>; the
  balance moves once per day, by the sum of the day.\<close>

fun v1_max_dd_loop :: "v1_trade dict \<Rightarrow> string list \<Rightarrow> rat \<Rightarrow> rat \<Rightarrow> rat \<times> rat" where
  "v1_max_dd_loop trades_by_day [] curr_bal min_bal = (curr_bal, min_bal)"
| "v1_max_dd_loop trades_by_day (day # days) curr_bal min_bal =
     (let day_trades = getitem trades_by_day day;
          day_pnl = sum_list (map v1_net_pnl day_trades);
          curr_bal = curr_bal + day_pnl;
          min_bal = (if curr_bal < min_bal then curr_bal else min_bal)
      in v1_max_dd_loop trades_by_day days curr_bal min_bal)"

record v1_report =
  v1_days :: "v1_day_result list"
  v1_min_bal :: rat
  v1_max_dd_used :: rat
  v1_limit :: rat
  v1_violation_found :: bool

definition v1_evaluate :: "config \<Rightarrow> v1_trade dict \<Rightarrow> v1_report" where
  "v1_evaluate cfg trades_by_day =
     (let sorted_days = sort (map fst trades_by_day);
          (results, running_balance, violation_found) =
             v1_daily_loop cfg trades_by_day sorted_days (ACCOUNT_SIZE cfg) False;
          min_bal = snd (v1_max_dd_loop trades_by_day sorted_days (ACCOUNT_SIZE cfg) (ACCOUNT_SIZE cfg));
          max_dd_used = ACCOUNT_SIZE cfg - min_bal;
          violation_found = (if max_dd_used > MAX_DD_LIMIT cfg then True else violation_found)
      in \<lparr>v1_days = results, v1_min_bal = min_bal, v1_max_dd_used = max_dd_used,
          v1_limit = MAX_DD_LIMIT cfg, v1_violation_found = violation_found\<rparr>)"

definition v1_analyze_csv :: "pylib \<Rightarrow> config \<Rightarrow> row list \<Rightarrow> error + v1_report" where
  "v1_analyze_csv L cfg rows =
     (case v1_read_rows L rows [] of
        Inl e \<Rightarrow> Inl e
      | Inr trades_by_day \<Rightarrow> Inr (v1_evaluate cfg trades_by_day))"

subsection \<open>The library at the texts of the examples\<close>

text \<open>The concrete runs below need no more of the library than its values at the few
  texts they contain: \<^verbatim>\<open>strptime\<close> reads \<^verbatim>\<open>"24/12/2025 09:00:00"\<close> as
  \<^verbatim>\<open>datetime(2025, 12, 24, 9, 0, 0)\<close> and raises on a text in another format,
  \<^verbatim>\<open>strftime("%Y-%m-%d")\<close> writes year, month and day, \<^verbatim>\<open>float("-100")\<close> is
  \<^verbatim>\<open>-100.0\<close> and \<^verbatim>\<open>float("abc")\<close> raises.\<close>

definition example_strptime :: "string \<Rightarrow> datetime option" where
  "example_strptime = map_of
     [(''24/12/2025 09:00:00'', (2025, 12, 24, 9, 0, 0)),
      (''24/12/2025 10:30:00'', (2025, 12, 24, 10, 30, 0)),
      (''24/12/2025 13:21:00'', (2025, 12, 24, 13, 21, 0)),
      (''25/12/2025 09:00:00'', (2025, 12, 25, 9, 0, 0))]"

definition example_strftime :: "datetime \<Rightarrow> string" where
  "example_strftime dt =
     (case dt of (y, m, d, _) \<Rightarrow>
        if (y, m, d) = (2025, 12, 24) then ''2025-12-24''
        else if (y, m, d) = (2025, 12, 25) then ''2025-12-25''
        else [])"

definition example_float :: "string \<Rightarrow> rat option" where
  "example_float = map_of
     [(''100'', 100), (''-100'', -100), (''-200'', -200), (''-250'', -250),
      (''-300'', -300), (''450'', 450), (''-50'', -50), (''-1.5'', -3/2),
      (''12.5'', 25/2)]"

definition example_lib :: pylib where
  "example_lib = \<lparr>strptime = example_strptime, strftime = example_strftime,
                   float = example_float\<rparr>"

definition mk_row :: "string \<Rightarrow> string \<Rightarrow> string \<Rightarrow> string \<Rightarrow> string \<Rightarrow> row" where
  "mk_row i c p co s = \<lparr>ID = i, Close_Time = c, Profit = p, Commission = co, Swap = s\<rparr>"

subsection \<open>Notions the statements need\<close>

text \<open>The lowest balance as the specification words it: the minimum, over all prefixes of
  the sequence of net results (the empty prefix included, which is the balance before the
  first trade), of the account size plus the sum of the prefix.\<close>

definition min_prefix_balance :: "rat \<Rightarrow> rat list \<Rightarrow> rat" where
  "min_prefix_balance accountSize pnls =
     Min ((\<lambda>p. accountSize + sum_list p) ` set (prefixes pnls))"

text \<open>The trades that the rows give, one by one and in the order of the rows: what the row
  loop appends when no row raises.\<close>

definition v2_in_order :: "pylib \<Rightarrow> row list \<Rightarrow> v2_trade list" where
  "v2_in_order L rows =
     concat (map (\<lambda>r. case v2_row L r of Inr (Some t) \<Rightarrow> [t] | _ \<Rightarrow> []) rows)"

definition v1_in_order :: "pylib \<Rightarrow> row list \<Rightarrow> (string \<times> v1_trade) list" where
  "v1_in_order L rows =
     concat (map (\<lambda>r. case v1_row L r of Inr (Some p) \<Rightarrow> [p] | _ \<Rightarrow> []) rows)"

text \<open>v1 never builds one list of all trades. The order in which it goes through them is
  that of lines 107 to 109, \<^verbatim>\<open>for day in sorted_days: day_trades = trades_by_day[day];
  for t in day_trades\<close>; each trade is paired with its day.\<close>

definition v1_visits :: "v1_trade dict \<Rightarrow> (string \<times> v1_trade) list" where
  "v1_visits trades_by_day =
     concat (map (\<lambda>day. map (Pair day) (getitem trades_by_day day))
                 (sort (map fst trades_by_day)))"

text \<open>The close times of the trades of v1 in that order, read from the text each trade
  keeps under \<^verbatim>\<open>'time'\<close>.\<close>

definition v1_close_times :: "pylib \<Rightarrow> v1_trade dict \<Rightarrow> datetime list" where
  "v1_close_times L trades_by_day =
     List.map_filter (\<lambda>p. strptime L (v1_time (snd p))) (v1_visits trades_by_day)"

text \<open>The amount a cell stands for: zero when the cell is empty, else what \<^verbatim>\<open>float\<close>
  reads, if it reads anything. A cell is a bad number when it is not empty and
  \<^verbatim>\<open>float\<close> raises on it.\<close>

definition field_value :: "pylib \<Rightarrow> string \<Rightarrow> rat option" where
  "field_value L s = (if s = [] then Some 0 else float L s)"

definition bad_number :: "pylib \<Rightarrow> string \<Rightarrow> bool" where
  "bad_number L s \<longleftrightarrow> s \<noteq> [] \<and> float L s = None"

subsection \<open>Example inputs\<close>

text \<open>One day, three trades: the balance falls to 4500 after the second and ends at 4950.\<close>

definition rows_trough :: "row list" where
  "rows_trough =
     [mk_row ''1'' ''24/12/2025 09:00:00'' ''-300'' [] [],
      mk_row ''2'' ''24/12/2025 10:30:00'' ''-200'' [] [],
      mk_row ''3'' ''24/12/2025 13:21:00'' ''450'' [] []]"

text \<open>One day, a loss of 100 and then a gain of 100.\<close>

definition rows_round_trip :: "row list" where
  "rows_round_trip =
     [mk_row ''1'' ''24/12/2025 09:00:00'' ''-100'' [] [],
      mk_row ''2'' ''24/12/2025 10:30:00'' ''100'' [] []]"

text \<open>The close time of the first row is written year first, which the format of the
  scripts does not accept.\<close>

definition rows_bad_time :: "row list" where
  "rows_bad_time =
     [mk_row ''1'' ''2025-12-24 09:00:00'' ''100'' [] [],
      mk_row ''2'' ''24/12/2025 10:30:00'' ''-50'' [] []]"

text \<open>Two rows of one day, the later trade first.\<close>

definition rows_out_of_order :: "row list" where
  "rows_out_of_order =
     [mk_row ''1'' ''24/12/2025 13:21:00'' ''100'' [] [],
      mk_row ''2'' ''24/12/2025 09:00:00'' ''-50'' [] []]"

definition tbd_out_of_order :: "v1_trade dict" where
  "tbd_out_of_order =
     [(''2025-12-24'',
       [\<lparr>v1_id = ''1'', v1_net_pnl = 100, v1_time = ''24/12/2025 13:21:00''\<rparr>,
        \<lparr>v1_id = ''2'', v1_net_pnl = -50, v1_time = ''24/12/2025 09:00:00''\<rparr>])]"

text \<open>Three rows in reverse order of time, over two days.\<close>

definition rows_two_days :: "row list" where
  "rows_two_days =
     [mk_row ''1'' ''25/12/2025 09:00:00'' ''100'' [] [],
      mk_row ''2'' ''24/12/2025 13:21:00'' ''-50'' [] [],
      mk_row ''3'' ''24/12/2025 09:00:00'' ''-100'' [] []]"

definition tbd_two_days :: "v1_trade dict" where
  "tbd_two_days =
     [(''2025-12-25'',
       [\<lparr>v1_id = ''1'', v1_net_pnl = 100, v1_time = ''25/12/2025 09:00:00''\<rparr>]),
      (''2025-12-24'',
       [\<lparr>v1_id = ''2'', v1_net_pnl = -50, v1_time = ''24/12/2025 13:21:00''\<rparr>,
        \<lparr>v1_id = ''3'', v1_net_pnl = -100, v1_time = ''24/12/2025 09:00:00''\<rparr>])]"

text \<open>A day that loses exactly 200, the daily limit of the scripts, and a day that loses
  250.\<close>

definition rows_limit :: "row list" where
  "rows_limit =
     [mk_row ''1'' ''24/12/2025 09:00:00'' ''-100'' [] [],
      mk_row ''2'' ''24/12/2025 13:21:00'' ''-100'' [] [],
      mk_row ''3'' ''25/12/2025 09:00:00'' ''-250'' [] []]"

text \<open>A row with a profit, a commission and an empty swap.\<close>

definition row_fees :: row where
  "row_fees = mk_row ''7'' ''24/12/2025 09:00:00'' ''12.5'' ''-1.5'' []"

definition negative_config :: config where
  "negative_config = \<lparr>ACCOUNT_SIZE = -5000, DAILY_DD_PERCENT = 4\<rparr>"

definition rows_gain :: "row list" where
  "rows_gain = [mk_row ''1'' ''24/12/2025 09:00:00'' ''100'' [] []]"

text \<open>A row whose profit is no number, and the rows put before and after it.\<close>

definition row_bad_number :: row where
  "row_bad_number = mk_row ''2'' ''24/12/2025 10:30:00'' ''abc'' [] []"

definition rows_before :: "row list" where
  "rows_before = [mk_row ''1'' ''24/12/2025 09:00:00'' ''-50'' [] []]"

definition rows_after :: "row list" where
  "rows_after = [mk_row ''3'' ''25/12/2025 09:00:00'' ''-250'' [] []]"

section \<open>Lemmas\<close>

lemmas lib_defs = mk_row_def example_lib_def example_strptime_def example_strftime_def
  example_float_def

lemmas row_defs = v1_row_def v2_row_def parse_date_def parse_datetime_def float_or_0_def

lemmas run_defs = v1_analyze_csv_def v2_analyze_csv_def v1_evaluate_def v2_evaluate_def
  v2_all_trades_def script_config_def DAILY_LIMIT_def MAX_DD_LIMIT_def day_loss_of_def

subsection \<open>The lowest balance\<close>

lemma min_prefix_balance_Nil: "min_prefix_balance a [] = a"
  by (simp add: min_prefix_balance_def)

lemma min_prefix_balance_Cons:
  "min_prefix_balance a (x # xs) = min a (min_prefix_balance (a + x) xs)"
proof -
  have "(\<lambda>p. a + sum_list p) ` set (prefixes (x # xs))
        = insert a ((\<lambda>p. (a + x) + sum_list p) ` set (prefixes xs))"
    by (simp add: image_image add.assoc)
  moreover have "(\<lambda>p. (a + x) + sum_list p) ` set (prefixes xs) \<noteq> {}" by simp
  ultimately show ?thesis
    unfolding min_prefix_balance_def by (simp add: Min_insert)
qed

lemma min_prefix_balance_le: "min_prefix_balance a xs \<le> a"
  by (cases xs) (simp_all add: min_prefix_balance_Nil min_prefix_balance_Cons)

text \<open>The trade loop of v2 computes the minimum over all prefixes, whatever it starts
  from, as long as the minimum so far is not above the balance so far.\<close>

lemma v2_balance_loop_min:
  "m \<le> c \<Longrightarrow> snd (v2_balance_loop ts c m) = min m (min_prefix_balance c (map v2_net_pnl ts))"
proof (induction ts arbitrary: c m)
  case Nil
  then show ?case by (simp add: min_prefix_balance_Nil)
next
  case (Cons t ts)
  let ?c = "c + v2_net_pnl t"
  let ?m = "if ?c < m then ?c else m"
  have le: "?m \<le> ?c" by simp
  have "snd (v2_balance_loop (t # ts) c m) = snd (v2_balance_loop ts ?c ?m)"
    by (simp add: Let_def)
  also have "\<dots> = min ?m (min_prefix_balance ?c (map v2_net_pnl ts))"
    by (rule Cons.IH [OF le])
  also have "\<dots> = min m (min_prefix_balance c (map v2_net_pnl (t # ts)))"
    using Cons.prems min_prefix_balance_le [of ?c "map v2_net_pnl ts"]
    by (simp add: min_prefix_balance_Cons min_def)
  finally show ?case .
qed

lemma v2_min_balance_prefix_min:
  "v2_min_balance (v2_evaluate cfg ts)
     = min_prefix_balance (ACCOUNT_SIZE cfg) (map v2_net_pnl ts)"
  using v2_balance_loop_min [of "ACCOUNT_SIZE cfg" "ACCOUNT_SIZE cfg" ts]
    min_prefix_balance_le [of "ACCOUNT_SIZE cfg" "map v2_net_pnl ts"]
  by (simp add: v2_evaluate_def Let_def split: prod.splits)

text \<open>The day loop of v1 computes the same minimum, but over the sequence of day sums:
  its prefixes end at the close of a day.\<close>

lemma v1_max_dd_loop_min:
  "m \<le> c \<Longrightarrow>
     snd (v1_max_dd_loop tbd days c m)
       = min m (min_prefix_balance c
                  (map (\<lambda>day. sum_list (map v1_net_pnl (getitem tbd day))) days))"
proof (induction days arbitrary: c m)
  case Nil
  then show ?case by (simp add: min_prefix_balance_Nil)
next
  case (Cons d ds)
  let ?f = "\<lambda>day. sum_list (map v1_net_pnl (getitem tbd day))"
  let ?c = "c + ?f d"
  let ?m = "if ?c < m then ?c else m"
  have le: "?m \<le> ?c" by simp
  have "snd (v1_max_dd_loop tbd (d # ds) c m) = snd (v1_max_dd_loop tbd ds ?c ?m)"
    by (simp add: Let_def)
  also have "\<dots> = min ?m (min_prefix_balance ?c (map ?f ds))"
    by (rule Cons.IH [OF le])
  also have "\<dots> = min m (min_prefix_balance c (map ?f (d # ds)))"
    using Cons.prems min_prefix_balance_le [of ?c "map ?f ds"]
    by (simp add: min_prefix_balance_Cons min_def)
  finally show ?case .
qed

lemma v1_min_bal_day_prefix_min:
  "v1_min_bal (v1_evaluate cfg tbd)
     = min_prefix_balance (ACCOUNT_SIZE cfg)
         (map (\<lambda>day. sum_list (map v1_net_pnl (getitem tbd day))) (sort (map fst tbd)))"
  using v1_max_dd_loop_min [of "ACCOUNT_SIZE cfg" "ACCOUNT_SIZE cfg" tbd "sort (map fst tbd)"]
    min_prefix_balance_le [of "ACCOUNT_SIZE cfg"
      "map (\<lambda>day. sum_list (map v1_net_pnl (getitem tbd day))) (sort (map fst tbd))"]
  by (simp add: v1_evaluate_def Let_def split: prod.splits)

subsection \<open>The row loops and the dict\<close>

text \<open>When no row raises, v2 has appended the trades of the rows in the order of the rows.\<close>

lemma v2_read_rows_in_order:
  "v2_read_rows L rows acc = Inr ts \<Longrightarrow> ts = acc @ v2_in_order L rows"
proof (induction rows arbitrary: acc)
  case Nil
  then show ?case by (simp add: v2_in_order_def)
next
  case (Cons r rs)
  show ?case
  proof (cases "v2_row L r")
    case (Inl e)
    with Cons.prems show ?thesis by simp
  next
    case (Inr o1)
    show ?thesis
    proof (cases o1)
      case None
      with Inr Cons.prems have "v2_read_rows L rs acc = Inr ts" by simp
      from Cons.IH [OF this] Inr None show ?thesis by (simp add: v2_in_order_def)
    next
      case (Some t)
      with Inr Cons.prems have "v2_read_rows L rs (acc @ [t]) = Inr ts" by simp
      from Cons.IH [OF this] Inr Some show ?thesis by (simp add: v2_in_order_def)
    qed
  qed
qed

lemma getitem_dict_append:
  "getitem (dict_append d t m) day = (if day = d then getitem m d @ [t] else getitem m day)"
  by (induction d t m rule: dict_append.induct) auto

lemma keys_dict_append:
  "set (map fst (dict_append d t m)) = insert d (set (map fst m))"
  by (induction d t m rule: dict_append.induct) auto

lemma distinct_dict_append:
  "distinct (map fst m) \<Longrightarrow> distinct (map fst (dict_append d t m))"
proof (induction m)
  case Nil
  then show ?case by simp
next
  case (Cons a m)
  obtain k ts where a: "a = (k, ts)" by (cases a)
  from Cons a show ?case
    using keys_dict_append [of d t m] by auto
qed

lemma getitem_not_key: "day \<notin> set (map fst m) \<Longrightarrow> getitem m day = []"
  by (induction m) auto

lemma v1_read_rows_getitem:
  "v1_read_rows L rows acc = Inr tbd \<Longrightarrow>
     getitem tbd day = getitem acc day @ map snd (filter (\<lambda>p. fst p = day) (v1_in_order L rows))"
proof (induction rows arbitrary: acc)
  case Nil
  then show ?case by (simp add: v1_in_order_def)
next
  case (Cons r rs)
  show ?case
  proof (cases "v1_row L r")
    case (Inl e)
    with Cons.prems show ?thesis by simp
  next
    case (Inr o1)
    show ?thesis
    proof (cases o1)
      case None
      with Inr Cons.prems have "v1_read_rows L rs acc = Inr tbd" by simp
      from Cons.IH [OF this] Inr None show ?thesis by (simp add: v1_in_order_def)
    next
      case (Some p)
      obtain d t where p: "p = (d, t)" by (cases p)
      with Some Inr Cons.prems have "v1_read_rows L rs (dict_append d t acc) = Inr tbd" by simp
      from Cons.IH [OF this] Inr Some p show ?thesis
        by (simp add: v1_in_order_def getitem_dict_append)
    qed
  qed
qed

lemma v1_read_rows_keys:
  "v1_read_rows L rows acc = Inr tbd \<Longrightarrow>
     set (map fst tbd) = set (map fst acc) \<union> fst ` set (v1_in_order L rows)"
proof (induction rows arbitrary: acc)
  case Nil
  then show ?case by (simp add: v1_in_order_def)
next
  case (Cons r rs)
  show ?case
  proof (cases "v1_row L r")
    case (Inl e)
    with Cons.prems show ?thesis by simp
  next
    case (Inr o1)
    show ?thesis
    proof (cases o1)
      case None
      with Inr Cons.prems have "v1_read_rows L rs acc = Inr tbd" by simp
      from Cons.IH [OF this] Inr None show ?thesis by (simp add: v1_in_order_def)
    next
      case (Some p)
      obtain d t where p: "p = (d, t)" by (cases p)
      with Some Inr Cons.prems have "v1_read_rows L rs (dict_append d t acc) = Inr tbd" by simp
      from Cons.IH [OF this] Inr Some p keys_dict_append [of d t acc] show ?thesis
        by (simp add: v1_in_order_def)
    qed
  qed
qed

lemma v1_read_rows_distinct:
  "v1_read_rows L rows acc = Inr tbd \<Longrightarrow> distinct (map fst acc) \<Longrightarrow> distinct (map fst tbd)"
proof (induction rows arbitrary: acc)
  case Nil
  then show ?case by simp
next
  case (Cons r rs)
  then show ?case
    by (auto split: sum.splits option.splits intro: distinct_dict_append)
qed

lemma sorted_blocks:
  "sorted ds \<Longrightarrow> sorted (map fst (concat (map (\<lambda>d. map (Pair d) (g d)) ds)))"
proof (induction ds)
  case Nil
  then show ?case by simp
next
  case (Cons d ds)
  have "map fst (map (Pair d) (g d)) = replicate (length (g d)) d"
    by (simp add: map_replicate_const comp_def)
  with Cons show ?case
    by (auto simp: sorted_append)
qed

lemma filter_blocks:
  "distinct ds \<Longrightarrow>
     filter (\<lambda>p. fst p = day) (concat (map (\<lambda>d. map (Pair d) (g d)) ds))
       = (if day \<in> set ds then map (Pair day) (g day) else [])"
proof (induction ds)
  case Nil
  then show ?case by simp
next
  case (Cons d ds)
  have "filter (\<lambda>p. fst p = day) (map (Pair d) (g d)) = (if d = day then map (Pair d) (g d) else [])"
    by (simp add: filter_map comp_def)
  with Cons show ?case by auto
qed

lemma map_Pair_filter:
  "map (Pair day \<circ> snd) (filter (\<lambda>p. fst p = day) ps) = filter (\<lambda>p. fst p = day) ps"
  by (induction ps) auto

lemma v1_visits_sorted: "sorted (map fst (v1_visits tbd))"
  unfolding v1_visits_def by (rule sorted_blocks) simp

lemma v1_visits_stable:
  assumes "v1_read_rows L rows [] = Inr tbd"
  shows "filter (\<lambda>p. fst p = day) (v1_visits tbd) = filter (\<lambda>p. fst p = day) (v1_in_order L rows)"
proof -
  have d: "distinct (sort (map fst tbd))"
    using v1_read_rows_distinct [OF assms] by simp
  have g: "getitem tbd day = map snd (filter (\<lambda>p. fst p = day) (v1_in_order L rows))"
    using v1_read_rows_getitem [OF assms, of day] by simp
  have k: "set (map fst tbd) = fst ` set (v1_in_order L rows)"
    using v1_read_rows_keys [OF assms] by simp
  show ?thesis
  proof (cases "day \<in> set (map fst tbd)")
    case True
    then show ?thesis
      unfolding v1_visits_def filter_blocks [OF d] by (simp add: g map_Pair_filter)
  next
    case False
    then have "filter (\<lambda>p. fst p = day) (v1_in_order L rows) = []"
      unfolding k by (auto simp: filter_empty_conv)
    with False show ?thesis
      unfolding v1_visits_def filter_blocks [OF d] by simp
  qed
qed

lemma v2_read_rows_append:
  "v2_read_rows L (xs @ ys) acc =
     (case v2_read_rows L xs acc of Inl e \<Rightarrow> Inl e | Inr ts \<Rightarrow> v2_read_rows L ys ts)"
  by (induction xs arbitrary: acc) (auto split: sum.splits option.splits)

lemma v1_read_rows_append:
  "v1_read_rows L (xs @ ys) acc =
     (case v1_read_rows L xs acc of Inl e \<Rightarrow> Inl e | Inr tbd \<Rightarrow> v1_read_rows L ys tbd)"
  by (induction xs arbitrary: acc) (auto split: sum.splits option.splits)

text \<open>A row that the loop passes over with \<^verbatim>\<open>continue\<close> changes nothing: the run is
  that of the input without the row.\<close>

lemma v2_skipped_row_is_dropped:
  "v2_row L r = Inr None \<Longrightarrow>
     v2_analyze_csv L cfg (pre @ r # post) = v2_analyze_csv L cfg (pre @ post)"
  by (simp add: v2_analyze_csv_def v2_read_rows_append split: sum.splits)

lemma v1_skipped_row_is_dropped:
  "v1_row L r = Inr None \<Longrightarrow>
     v1_analyze_csv L cfg (pre @ r # post) = v1_analyze_csv L cfg (pre @ post)"
  by (simp add: v1_analyze_csv_def v1_read_rows_append split: sum.splits)

text \<open>Both scripts pass over a row with an empty close time. v2 also passes over a row
  whose close time \<^verbatim>\<open>strptime\<close> rejects; in v1 the same row raises.\<close>

lemma v2_row_empty_time: "Close_Time r = [] \<Longrightarrow> v2_row L r = Inr None"
  by (simp add: v2_row_def)

lemma v1_row_empty_time: "Close_Time r = [] \<Longrightarrow> v1_row L r = Inr None"
  by (simp add: v1_row_def)

lemma v2_row_unparsable_time:
  "strptime L (Close_Time r) = None \<Longrightarrow> v2_row L r = Inr None"
  by (simp add: v2_row_def parse_datetime_def)

lemma v1_row_unparsable_time:
  "ID r \<noteq> ''Total'' \<Longrightarrow> Close_Time r \<noteq> [] \<Longrightarrow> strptime L (Close_Time r) = None \<Longrightarrow>
     v1_row L r = Inl (StrptimeValueError (Close_Time r))"
  by (simp add: v1_row_def parse_date_def)

text \<open>The report of v2 holds the minimum over all prefixes of the sorted trades, and the
  drawdown used is the account size less that minimum.\<close>

lemma v2_analyze_min_balance:
  assumes "v2_analyze_csv L cfg rows = Inr rep"
  shows "v2_min_balance rep =
           min_prefix_balance (ACCOUNT_SIZE cfg)
             (map v2_net_pnl (v2_all_trades (v2_in_order L rows)))"
    and "v2_max_dd_used rep = ACCOUNT_SIZE cfg - v2_min_balance rep"
proof -
  from assms obtain ts where ts: "v2_read_rows L rows [] = Inr ts"
    and rep: "rep = v2_evaluate cfg (v2_all_trades ts)"
    by (auto simp: v2_analyze_csv_def split: sum.splits)
  from v2_read_rows_in_order [OF ts] have "ts = v2_in_order L rows" by simp
  with rep show "v2_min_balance rep =
           min_prefix_balance (ACCOUNT_SIZE cfg)
             (map v2_net_pnl (v2_all_trades (v2_in_order L rows)))"
    by (simp add: v2_min_balance_prefix_min)
  from rep show "v2_max_dd_used rep = ACCOUNT_SIZE cfg - v2_min_balance rep"
    by (simp add: v2_evaluate_def Let_def split: prod.splits)
qed

subsection \<open>The day loops\<close>

text \<open>The block printed for the first day, and the state the loop goes on with.\<close>

lemma v2_daily_loop_fst_Cons:
  "fst (v2_daily_loop cfg tbd (d # ds) vf b) =
     \<lparr>v2_day = d, v2_day_pnl = sum_list (map v2_net_pnl (getitem tbd d)),
      v2_day_loss = day_loss_of (sum_list (map v2_net_pnl (getitem tbd d))),
      v2_is_breached = (DAILY_LIMIT cfg < day_loss_of (sum_list (map v2_net_pnl (getitem tbd d))))\<rparr>
     # fst (v2_daily_loop cfg tbd ds
             (if DAILY_LIMIT cfg < day_loss_of (sum_list (map v2_net_pnl (getitem tbd d)))
              then True else vf)
             (b + sum_list (map v2_net_pnl (getitem tbd d))))"
  by (simp add: Let_def split: prod.splits)

lemma v1_daily_loop_fst_Cons:
  "fst (v1_daily_loop cfg tbd (d # ds) b vf) =
     \<lparr>v1_day = d, v1_day_start_balance = b,
      v1_day_pnl = sum_list (map v1_net_pnl (getitem tbd d)),
      v1_n_trades = length (getitem tbd d),
      v1_day_loss = day_loss_of (sum_list (map v1_net_pnl (getitem tbd d))),
      v1_is_breached = (DAILY_LIMIT cfg < day_loss_of (sum_list (map v1_net_pnl (getitem tbd d))))\<rparr>
     # fst (v1_daily_loop cfg tbd ds
             (b + sum_list (map v1_net_pnl (getitem tbd d)))
             (if DAILY_LIMIT cfg < day_loss_of (sum_list (map v1_net_pnl (getitem tbd d)))
              then True else vf))"
  by (simp add: Let_def split: prod.splits)

lemma v2_daily_loop_breached:
  "r \<in> set (fst (v2_daily_loop cfg tbd days vf b)) \<Longrightarrow>
     v2_is_breached r = (DAILY_LIMIT cfg < v2_day_loss r)"
proof (induction days arbitrary: vf b)
  case Nil
  then show ?case by simp
next
  case (Cons d ds)
  from Cons.prems show ?case
    unfolding v2_daily_loop_fst_Cons using Cons.IH by auto
qed

lemma v1_daily_loop_breached:
  "r \<in> set (fst (v1_daily_loop cfg tbd days b vf)) \<Longrightarrow>
     v1_is_breached r = (DAILY_LIMIT cfg < v1_day_loss r)"
proof (induction days arbitrary: vf b)
  case Nil
  then show ?case by simp
next
  case (Cons d ds)
  from Cons.prems show ?case
    unfolding v1_daily_loop_fst_Cons using Cons.IH by auto
qed

lemma DAILY_LIMIT_eq: "DAILY_LIMIT cfg = ACCOUNT_SIZE cfg * DAILY_DD_PERCENT cfg / 100"
  by (simp add: DAILY_LIMIT_def)

lemma v2_days_evaluate:
  "v2_days (v2_evaluate cfg ts) =
     fst (v2_daily_loop cfg (v2_group ts []) (sort (map fst (v2_group ts []))) False (ACCOUNT_SIZE cfg))"
  by (simp add: v2_evaluate_def Let_def split: prod.splits)

lemma v1_days_evaluate:
  "v1_days (v1_evaluate cfg tbd) =
     fst (v1_daily_loop cfg tbd (sort (map fst tbd)) (ACCOUNT_SIZE cfg) False)"
  by (simp add: v1_evaluate_def Let_def split: prod.splits)

subsection \<open>Rows with a bad number\<close>

text \<open>A row that is not passed over and holds a bad number makes the row body of both
  scripts raise, with the first bad cell in the \<^verbatim>\<open>ValueError\<close>.\<close>

lemma float_or_0_ok: "\<not> bad_number L s \<Longrightarrow> \<exists>x. float_or_0 L s = Inr x"
  by (cases "float L s") (auto simp: float_or_0_def bad_number_def)

lemma bad_number_row:
  assumes "ID r \<noteq> ''Total''" and "Close_Time r \<noteq> []"
    and "strptime L (Close_Time r) = Some dt"
    and "bad_number L (Profit r) \<or> bad_number L (Commission r) \<or> bad_number L (Swap r)"
  shows "\<exists>s. s \<in> {Profit r, Commission r, Swap r} \<and> bad_number L s \<and>
             v2_row L r = Inl (FloatValueError s) \<and> v1_row L r = Inl (FloatValueError s)"
proof (cases "bad_number L (Profit r)")
  case True
  with assms(1-3) have "v2_row L r = Inl (FloatValueError (Profit r)) \<and>
      v1_row L r = Inl (FloatValueError (Profit r))"
    by (simp add: row_defs bad_number_def)
  with True show ?thesis by blast
next
  case p: False
  then obtain x where x: "float_or_0 L (Profit r) = Inr x"
    using float_or_0_ok by blast
  show ?thesis
  proof (cases "bad_number L (Commission r)")
    case True
    with assms(1-3) x have "v2_row L r = Inl (FloatValueError (Commission r)) \<and>
        v1_row L r = Inl (FloatValueError (Commission r))"
      by (simp add: v1_row_def v2_row_def parse_date_def parse_datetime_def)
         (simp add: float_or_0_def bad_number_def)
    with True show ?thesis by blast
  next
    case c: False
    then obtain y where y: "float_or_0 L (Commission r) = Inr y"
      using float_or_0_ok by blast
    from p c assms(4) have s: "bad_number L (Swap r)" by simp
    with assms(1-3) x y have "v2_row L r = Inl (FloatValueError (Swap r)) \<and>
        v1_row L r = Inl (FloatValueError (Swap r))"
      by (simp add: v1_row_def v2_row_def parse_date_def parse_datetime_def)
         (simp add: float_or_0_def bad_number_def)
    with s show ?thesis by blast
  qed
qed

section \<open>The claims\<close>

text \<open>
  C1. The claim: in the maximum drawdown pass every trade is applied to the running balance
  one by one, so that the lowest balance is the minimum over all prefixes of the trade
  sequence, troughs inside a day included. v2 does so (\<open>v2_analyze_min_balance\<close>). v1
  does not: its loop over the trades of a day is empty and the balance moves by the sum of
  the day (\<open>v1_min_bal_day_prefix_min\<close>). On one day with the trades -300, -200 and
  +450 the balance is 4500 after the second trade, 100 below the drawdown limit of 400, but
  v1 reports a lowest balance of 4950, a drawdown of 50 and no violation.
\<close>

theorem v1_max_drawdown_misses_intraday_trough:
  "v1_analyze_csv example_lib script_config rows_trough =
     Inr \<lparr>v1_days = [\<lparr>v1_day = ''2025-12-24'', v1_day_start_balance = 5000,
                       v1_day_pnl = -50, v1_n_trades = 3, v1_day_loss = 50,
                       v1_is_breached = False\<rparr>],
          v1_min_bal = 4950, v1_max_dd_used = 50, v1_limit = 400,
          v1_violation_found = False\<rparr> \<and>
   map (v1_net_pnl \<circ> snd) (v1_in_order example_lib rows_trough) = [-300, -200, 450] \<and>
   min_prefix_balance (ACCOUNT_SIZE script_config) [-300, -200, 450] = 4500"
  by (simp add: rows_trough_def lib_defs row_defs run_defs v1_in_order_def
        min_prefix_balance_Cons min_prefix_balance_Nil)

text \<open>
  C2. The claim: the lowest balance of the day-by-day loop of v1 equals that of the
  trade-by-trade loop of v2 on every input. It does not: on one day with a loss of 100
  followed by a gain of 100, v1 reports 5000 and v2 reports 4900.
\<close>

theorem v1_v2_min_balance_differ:
  "v1_analyze_csv example_lib script_config rows_round_trip =
     Inr \<lparr>v1_days = [\<lparr>v1_day = ''2025-12-24'', v1_day_start_balance = 5000,
                       v1_day_pnl = 0, v1_n_trades = 2, v1_day_loss = 0,
                       v1_is_breached = False\<rparr>],
          v1_min_bal = 5000, v1_max_dd_used = 0, v1_limit = 400,
          v1_violation_found = False\<rparr> \<and>
   v2_analyze_csv example_lib script_config rows_round_trip =
     Inr \<lparr>v2_days = [\<lparr>v2_day = ''2025-12-24'', v2_day_pnl = 0, v2_day_loss = 0,
                       v2_is_breached = False\<rparr>],
          v2_min_balance = 4900, v2_max_dd_used = 100, v2_limit = 400,
          v2_violation_found = False\<rparr>"
  by (simp add: rows_round_trip_def lib_defs row_defs run_defs)

text \<open>
  C3. The claim: a row whose close time is empty or does not parse is passed over, the
  other rows are still processed, and no error surfaces. v2 does so
  (\<open>v2_row_empty_time\<close>, \<open>v2_row_unparsable_time\<close>, \<open>v2_skipped_row_is_dropped\<close>). In v1
  only the empty close time is passed over; \<^verbatim>\<open>parse_date\<close> lets the \<^verbatim>\<open>ValueError\<close>
  through (\<open>v1_row_unparsable_time\<close>) and the run ends with the error. On a first row
  with the close time \<^verbatim>\<open>2025-12-24 09:00:00\<close> v1 prints the error alone, v2 reports
  on the second row.
\<close>

theorem v1_aborts_on_unparsable_close_time:
  "v1_analyze_csv example_lib script_config rows_bad_time =
     Inl (StrptimeValueError ''2025-12-24 09:00:00'') \<and>
   v2_analyze_csv example_lib script_config rows_bad_time =
     Inr \<lparr>v2_days = [\<lparr>v2_day = ''2025-12-24'', v2_day_pnl = -50, v2_day_loss = 50,
                       v2_is_breached = False\<rparr>],
          v2_min_balance = 4950, v2_max_dd_used = 50, v2_limit = 400,
          v2_violation_found = False\<rparr>"
  by (simp add: rows_bad_time_def lib_defs row_defs run_defs)

text \<open>
  C4, as stated: the sequence of trades is ascending by close time on every input. In v1
  it is not: of two rows of one day, the later trade first, v1 keeps the order of the rows.
\<close>

theorem v1_visits_not_by_close_time:
  "v1_read_rows example_lib rows_out_of_order [] = Inr tbd_out_of_order \<and>
   v1_close_times example_lib tbd_out_of_order =
     [(2025, 12, 24, 13, 21, 0), (2025, 12, 24, 9, 0, 0)] \<and>
   \<not> sorted (v1_close_times example_lib tbd_out_of_order)"
  by (simp add: rows_out_of_order_def tbd_out_of_order_def lib_defs row_defs
        v1_close_times_def v1_visits_def List.map_filter_def)

text \<open>
  C4, amended. In v2 the trades of the rows, taken in the order of the rows, are sorted
  ascending by close time, and trades with the same close time keep the order of the rows.
  v1 orders by the calendar day only, as \<^verbatim>\<open>parse_date\<close> says it does ("take the date
  part ... for sorting"): it goes through the trades in ascending order of the day text, and
  the trades of one day keep the order of the rows.
\<close>

theorem trade_order:
  "(v2_read_rows L rows [] = Inr ts \<longrightarrow>
      ts = v2_in_order L rows \<and>
      sorted (map v2_dt (v2_all_trades ts)) \<and>
      (\<forall>k. filter (\<lambda>t. v2_dt t = k) (v2_all_trades ts) = filter (\<lambda>t. v2_dt t = k) ts)) \<and>
   (v1_read_rows L rows [] = Inr tbd \<longrightarrow>
      sorted (map fst (v1_visits tbd)) \<and>
      (\<forall>day. filter (\<lambda>p. fst p = day) (v1_visits tbd)
                = filter (\<lambda>p. fst p = day) (v1_in_order L rows)))"
proof (intro conjI impI allI)
  assume "v2_read_rows L rows [] = Inr ts"
  from v2_read_rows_in_order [OF this] show "ts = v2_in_order L rows" by simp
next
  show "sorted (map v2_dt (v2_all_trades ts))"
    by (simp add: v2_all_trades_def)
next
  fix k
  show "filter (\<lambda>t. v2_dt t = k) (v2_all_trades ts) = filter (\<lambda>t. v2_dt t = k) ts"
    unfolding v2_all_trades_def by (rule sort_key_stable)
next
  show "sorted (map fst (v1_visits tbd))" by (rule v1_visits_sorted)
next
  fix day
  assume "v1_read_rows L rows [] = Inr tbd"
  then show "filter (\<lambda>p. fst p = day) (v1_visits tbd)
                = filter (\<lambda>p. fst p = day) (v1_in_order L rows)"
    by (rule v1_visits_stable)
qed

text \<open>
  C4, an instance: three rows in reverse order of time over two days. Both row loops end
  without error; v2 turns the rows 1, 2, 3 into 3, 2, 1, v1 goes through them as 2, 3, 1.
\<close>

theorem trade_order_witness:
  "v2_read_rows example_lib rows_two_days [] = Inr (v2_in_order example_lib rows_two_days) \<and>
   map v2_id (v2_in_order example_lib rows_two_days) = [''1'', ''2'', ''3''] \<and>
   map v2_id (v2_all_trades (v2_in_order example_lib rows_two_days)) = [''3'', ''2'', ''1''] \<and>
   sorted (map v2_dt (v2_all_trades (v2_in_order example_lib rows_two_days))) \<and>
   v1_read_rows example_lib rows_two_days [] = Inr tbd_two_days \<and>
   map (v1_id \<circ> snd) (v1_visits tbd_two_days) = [''2'', ''3'', ''1''] \<and>
   sorted (map fst (v1_visits tbd_two_days))"
proof -
  have a: "v2_read_rows example_lib rows_two_days [] = Inr (v2_in_order example_lib rows_two_days)"
    by (simp add: rows_two_days_def lib_defs row_defs v2_in_order_def)
  have b: "v1_read_rows example_lib rows_two_days [] = Inr tbd_two_days"
    by (simp add: rows_two_days_def tbd_two_days_def lib_defs row_defs)
  have c: "map v2_id (v2_in_order example_lib rows_two_days) = [''1'', ''2'', ''3'']"
    by (simp add: rows_two_days_def lib_defs row_defs v2_in_order_def)
  have d: "map v2_id (v2_all_trades (v2_in_order example_lib rows_two_days)) = [''3'', ''2'', ''1'']"
    by (simp add: rows_two_days_def lib_defs row_defs v2_in_order_def v2_all_trades_def)
  have e: "map (v1_id \<circ> snd) (v1_visits tbd_two_days) = [''2'', ''3'', ''1'']"
    by (simp add: tbd_two_days_def v1_visits_def)
  from trade_order [of example_lib rows_two_days "v2_in_order example_lib rows_two_days" tbd_two_days]
    a b c d e
  show ?thesis by simp
qed

text \<open>
  C5. In both scripts, every day of the report is marked as breached exactly when its loss
  is strictly greater than the daily limit; a day whose loss equals the limit is not
  breached.
\<close>

theorem daily_breach_strict:
  "(v2_analyze_csv L cfg rows = Inr rep2 \<longrightarrow>
      (\<forall>r\<in>set (v2_days rep2).
         (v2_is_breached r \<longleftrightarrow> DAILY_LIMIT cfg < v2_day_loss r) \<and>
         (v2_day_loss r = DAILY_LIMIT cfg \<longrightarrow> \<not> v2_is_breached r))) \<and>
   (v1_analyze_csv L cfg rows = Inr rep1 \<longrightarrow>
      (\<forall>r\<in>set (v1_days rep1).
         (v1_is_breached r \<longleftrightarrow> DAILY_LIMIT cfg < v1_day_loss r) \<and>
         (v1_day_loss r = DAILY_LIMIT cfg \<longrightarrow> \<not> v1_is_breached r)))"
proof (intro conjI impI ballI)
  fix r assume a: "v2_analyze_csv L cfg rows = Inr rep2" and r: "r \<in> set (v2_days rep2)"
  from a obtain ts where "rep2 = v2_evaluate cfg ts"
    by (auto simp: v2_analyze_csv_def split: sum.splits)
  with r have "r \<in> set (fst (v2_daily_loop cfg (v2_group ts []) (sort (map fst (v2_group ts []))) False (ACCOUNT_SIZE cfg)))"
    by (simp add: v2_days_evaluate)
  then have b: "v2_is_breached r = (DAILY_LIMIT cfg < v2_day_loss r)"
    by (rule v2_daily_loop_breached)
  then show "v2_is_breached r \<longleftrightarrow> DAILY_LIMIT cfg < v2_day_loss r" by simp
  assume "v2_day_loss r = DAILY_LIMIT cfg"
  with b show "\<not> v2_is_breached r" by simp
next
  fix r assume a: "v1_analyze_csv L cfg rows = Inr rep1" and r: "r \<in> set (v1_days rep1)"
  from a obtain tbd where "rep1 = v1_evaluate cfg tbd"
    by (auto simp: v1_analyze_csv_def split: sum.splits)
  with r have "r \<in> set (fst (v1_daily_loop cfg tbd (sort (map fst tbd)) (ACCOUNT_SIZE cfg) False))"
    by (simp add: v1_days_evaluate)
  then have b: "v1_is_breached r = (DAILY_LIMIT cfg < v1_day_loss r)"
    by (rule v1_daily_loop_breached)
  then show "v1_is_breached r \<longleftrightarrow> DAILY_LIMIT cfg < v1_day_loss r" by simp
  assume "v1_day_loss r = DAILY_LIMIT cfg"
  with b show "\<not> v1_is_breached r" by simp
qed

text \<open>
  C5, an instance, with the account size 5000 and 4 percent of the scripts: the limit is
  200, the day that loses exactly 200 is not breached, the day that loses 250 is.
\<close>

theorem daily_breach_strict_witness:
  "v2_analyze_csv example_lib script_config rows_limit =
     Inr \<lparr>v2_days = [\<lparr>v2_day = ''2025-12-24'', v2_day_pnl = -200, v2_day_loss = 200,
                       v2_is_breached = False\<rparr>,
                      \<lparr>v2_day = ''2025-12-25'', v2_day_pnl = -250, v2_day_loss = 250,
                       v2_is_breached = True\<rparr>],
          v2_min_balance = 4550, v2_max_dd_used = 450, v2_limit = 400,
          v2_violation_found = True\<rparr> \<and>
   v1_analyze_csv example_lib script_config rows_limit =
     Inr \<lparr>v1_days = [\<lparr>v1_day = ''2025-12-24'', v1_day_start_balance = 5000,
                       v1_day_pnl = -200, v1_n_trades = 2, v1_day_loss = 200,
                       v1_is_breached = False\<rparr>,
                      \<lparr>v1_day = ''2025-12-25'', v1_day_start_balance = 4800,
                       v1_day_pnl = -250, v1_n_trades = 1, v1_day_loss = 250,
                       v1_is_breached = True\<rparr>],
          v1_min_bal = 4550, v1_max_dd_used = 450, v1_limit = 400,
          v1_violation_found = True\<rparr> \<and>
   DAILY_LIMIT script_config = 200 \<and>
   (200 < (200::rat)) = False \<and> (200 < (250::rat)) = True"
proof -
  let ?rep2 = "\<lparr>v2_days = [\<lparr>v2_day = ''2025-12-24'', v2_day_pnl = -200, v2_day_loss = 200,
                       v2_is_breached = False\<rparr>,
                      \<lparr>v2_day = ''2025-12-25'', v2_day_pnl = -250, v2_day_loss = 250,
                       v2_is_breached = True\<rparr>],
          v2_min_balance = 4550, v2_max_dd_used = 450, v2_limit = 400,
          v2_violation_found = True\<rparr>"
  let ?rep1 = "\<lparr>v1_days = [\<lparr>v1_day = ''2025-12-24'', v1_day_start_balance = 5000,
                       v1_day_pnl = -200, v1_n_trades = 2, v1_day_loss = 200,
                       v1_is_breached = False\<rparr>,
                      \<lparr>v1_day = ''2025-12-25'', v1_day_start_balance = 4800,
                       v1_day_pnl = -250, v1_n_trades = 1, v1_day_loss = 250,
                       v1_is_breached = True\<rparr>],
          v1_min_bal = 4550, v1_max_dd_used = 450, v1_limit = 400,
          v1_violation_found = True\<rparr>"
  have a: "v2_analyze_csv example_lib script_config rows_limit = Inr ?rep2"
    by (simp add: rows_limit_def lib_defs row_defs run_defs)
  have b: "v1_analyze_csv example_lib script_config rows_limit = Inr ?rep1"
    by (simp add: rows_limit_def lib_defs row_defs run_defs)
  have c: "DAILY_LIMIT script_config = 200"
    by (simp add: DAILY_LIMIT_def script_config_def)
  from daily_breach_strict [of example_lib script_config rows_limit ?rep2 ?rep1] a b c
  show ?thesis by simp
qed

text \<open>
  C6. The daily check has a fixed base. Whatever balance and whatever verdict so far the
  day loop is entered with, the days it marks as breached are those whose loss, computed
  from the trades of that day alone, exceeds \<open>ACCOUNT_SIZE * DAILY_DD_PERCENT / 100\<close>.
\<close>

theorem daily_loss_base:
  "map v1_is_breached (fst (v1_daily_loop cfg tbd1 days running_balance vf)) =
     map (\<lambda>day. ACCOUNT_SIZE cfg * DAILY_DD_PERCENT cfg / 100
                   < day_loss_of (sum_list (map v1_net_pnl (getitem tbd1 day)))) days \<and>
   map v2_is_breached (fst (v2_daily_loop cfg tbd2 days vf daily_vol_balance)) =
     map (\<lambda>day. ACCOUNT_SIZE cfg * DAILY_DD_PERCENT cfg / 100
                   < day_loss_of (sum_list (map v2_net_pnl (getitem tbd2 day)))) days"
proof
  show "map v1_is_breached (fst (v1_daily_loop cfg tbd1 days running_balance vf)) =
     map (\<lambda>day. ACCOUNT_SIZE cfg * DAILY_DD_PERCENT cfg / 100
                   < day_loss_of (sum_list (map v1_net_pnl (getitem tbd1 day)))) days"
    unfolding DAILY_LIMIT_eq [symmetric]
    by (induction days arbitrary: running_balance vf)
       (simp_all add: v1_daily_loop_fst_Cons del: v1_daily_loop.simps(2))
  show "map v2_is_breached (fst (v2_daily_loop cfg tbd2 days vf daily_vol_balance)) =
     map (\<lambda>day. ACCOUNT_SIZE cfg * DAILY_DD_PERCENT cfg / 100
                   < day_loss_of (sum_list (map v2_net_pnl (getitem tbd2 day)))) days"
    unfolding DAILY_LIMIT_eq [symmetric]
    by (induction days arbitrary: daily_vol_balance vf)
       (simp_all add: v2_daily_loop_fst_Cons del: v2_daily_loop.simps(2))
qed

text \<open>
  C7. When the row loop of v2 ends with no trade, and the account size is not negative, the
  run does not fail: the report has no day, the lowest balance is the account size, the
  drawdown used is 0 and no violation is found.
\<close>

theorem empty_input_report:
  assumes "v2_read_rows L rows [] = Inr []" and "0 \<le> ACCOUNT_SIZE cfg"
  shows "v2_analyze_csv L cfg rows =
           Inr \<lparr>v2_days = [], v2_min_balance = ACCOUNT_SIZE cfg, v2_max_dd_used = 0,
                v2_limit = MAX_DD_LIMIT cfg, v2_violation_found = False\<rparr>"
  using assms
  by (simp add: v2_analyze_csv_def v2_all_trades_def v2_evaluate_def MAX_DD_LIMIT_def Let_def)

text \<open>C7, an instance: no row at all, with the configuration of the scripts.\<close>

theorem empty_input_report_witness:
  "v2_read_rows example_lib [] [] = Inr [] \<and> 0 \<le> ACCOUNT_SIZE script_config \<and>
   v2_analyze_csv example_lib script_config [] =
     Inr \<lparr>v2_days = [], v2_min_balance = 5000, v2_max_dd_used = 0, v2_limit = 400,
          v2_violation_found = False\<rparr>"
proof -
  have a: "v2_read_rows example_lib [] [] = Inr []" by simp
  have b: "0 \<le> ACCOUNT_SIZE script_config" by (simp add: script_config_def)
  from empty_input_report [OF a b] a b show ?thesis
    by (simp add: script_config_def MAX_DD_LIMIT_def)
qed

text \<open>
  C8. In both scripts, the net result of the trade made from a row is the sum of the
  amounts of its profit, commission and swap cells, an empty cell counting as 0.
\<close>

theorem net_pnl_is_sum:
  "(v2_row L r = Inr (Some t2) \<longrightarrow>
      (\<exists>p c s. field_value L (Profit r) = Some p \<and> field_value L (Commission r) = Some c \<and>
               field_value L (Swap r) = Some s \<and> v2_net_pnl t2 = p + c + s)) \<and>
   (v1_row L r = Inr (Some (day_str, t1)) \<longrightarrow>
      (\<exists>p c s. field_value L (Profit r) = Some p \<and> field_value L (Commission r) = Some c \<and>
               field_value L (Swap r) = Some s \<and> v1_net_pnl t1 = p + c + s))"
  by (auto simp: v2_row_def v1_row_def float_or_0_def field_value_def
           split: if_splits option.splits sum.splits)

text \<open>C8, an instance: profit 12.5, commission -1.5 and an empty swap give 11.\<close>

theorem net_pnl_is_sum_witness:
  "v2_row example_lib row_fees =
     Inr (Some \<lparr>v2_dt = (2025, 12, 24, 9, 0, 0), v2_date_str = ''2025-12-24'',
                v2_net_pnl = 11, v2_id = ''7''\<rparr>) \<and>
   v1_row example_lib row_fees =
     Inr (Some (''2025-12-24'',
                \<lparr>v1_id = ''7'', v1_net_pnl = 11, v1_time = ''24/12/2025 09:00:00''\<rparr>)) \<and>
   field_value example_lib (Profit row_fees) = Some (25 / 2) \<and>
   field_value example_lib (Commission row_fees) = Some (- 3 / 2) \<and>
   field_value example_lib (Swap row_fees) = Some 0"
proof -
  let ?t2 = "\<lparr>v2_dt = (2025, 12, 24, 9, 0, 0), v2_date_str = ''2025-12-24'',
                v2_net_pnl = 11, v2_id = ''7''\<rparr>"
  let ?t1 = "\<lparr>v1_id = ''7'', v1_net_pnl = 11, v1_time = ''24/12/2025 09:00:00''\<rparr>"
  have a: "v2_row example_lib row_fees = Inr (Some ?t2)"
    by (simp add: row_fees_def lib_defs row_defs)
  have b: "v1_row example_lib row_fees = Inr (Some (''2025-12-24'', ?t1))"
    by (simp add: row_fees_def lib_defs row_defs)
  have c: "field_value example_lib (Profit row_fees) = Some (25 / 2)"
    "field_value example_lib (Commission row_fees) = Some (- 3 / 2)"
    "field_value example_lib (Swap row_fees) = Some 0"
    by (simp_all add: row_fees_def lib_defs field_value_def)
  from net_pnl_is_sum [of example_lib row_fees ?t2 "''2025-12-24''" ?t1] a b c
  show ?thesis by simp
qed

text \<open>
  C9, as stated: with a non-positive account size the program ends with a configuration
  error and no report. It does not: with the account size -5000 both scripts print a
  report, in which a day that gained 100 is marked as breached.
\<close>

theorem report_for_negative_account_size:
  "ACCOUNT_SIZE negative_config = -5000 \<and>
   v2_analyze_csv example_lib negative_config rows_gain =
     Inr \<lparr>v2_days = [\<lparr>v2_day = ''2025-12-24'', v2_day_pnl = 100, v2_day_loss = 0,
                       v2_is_breached = True\<rparr>],
          v2_min_balance = -5000, v2_max_dd_used = 0, v2_limit = -400,
          v2_violation_found = True\<rparr> \<and>
   v1_analyze_csv example_lib negative_config rows_gain =
     Inr \<lparr>v1_days = [\<lparr>v1_day = ''2025-12-24'', v1_day_start_balance = -5000,
                       v1_day_pnl = 100, v1_n_trades = 1, v1_day_loss = 0,
                       v1_is_breached = True\<rparr>],
          v1_min_bal = -5000, v1_max_dd_used = 0, v1_limit = -400,
          v1_violation_found = True\<rparr>"
  by (simp add: rows_gain_def negative_config_def lib_defs row_defs
        v1_analyze_csv_def v2_analyze_csv_def v1_evaluate_def v2_evaluate_def
        v2_all_trades_def DAILY_LIMIT_def MAX_DD_LIMIT_def day_loss_of_def)

text \<open>
  C9, amended. Neither script checks its configuration. Whether a run ends with an error or
  with a report does not depend on the configuration at all, only on the rows; the errors
  there are, by the type \<open>error\<close>, are the two \<^verbatim>\<open>ValueError\<close>s of the row loop.
\<close>

theorem no_config_check:
  "isl (v1_analyze_csv L cfg rows) = isl (v1_analyze_csv L cfg' rows) \<and>
   isl (v2_analyze_csv L cfg rows) = isl (v2_analyze_csv L cfg' rows)"
  by (simp add: v1_analyze_csv_def v2_analyze_csv_def split: sum.splits)

text \<open>
  C10. Take a row that is not passed over (its ID is not Total, its close time is not empty
  and parses) and one of whose profit, commission and swap cells is a bad number, at any
  place of the input such that the rows before it are read without error. Then both
  scripts end with the \<^verbatim>\<open>ValueError\<close> of \<^verbatim>\<open>float\<close> on a bad cell of that row,
  whatever rows follow: no report is produced.
\<close>

theorem bad_number_aborts:
  assumes "ID r \<noteq> ''Total''" and "Close_Time r \<noteq> []"
    and "strptime L (Close_Time r) = Some dt"
    and "bad_number L (Profit r) \<or> bad_number L (Commission r) \<or> bad_number L (Swap r)"
    and "v2_read_rows L pre [] = Inr ts" and "v1_read_rows L pre [] = Inr tbd"
  shows "\<exists>s. s \<in> {Profit r, Commission r, Swap r} \<and> bad_number L s \<and>
             v2_analyze_csv L cfg (pre @ r # post) = Inl (FloatValueError s) \<and>
             v1_analyze_csv L cfg (pre @ r # post) = Inl (FloatValueError s)"
proof -
  from bad_number_row [OF assms(1-4)] obtain s
    where s: "s \<in> {Profit r, Commission r, Swap r}" "bad_number L s"
      and r2: "v2_row L r = Inl (FloatValueError s)"
      and r1: "v1_row L r = Inl (FloatValueError s)"
    by blast
  from assms(5) r2 have "v2_analyze_csv L cfg (pre @ r # post) = Inl (FloatValueError s)"
    by (simp add: v2_analyze_csv_def v2_read_rows_append)
  moreover from assms(6) r1 have "v1_analyze_csv L cfg (pre @ r # post) = Inl (FloatValueError s)"
    by (simp add: v1_analyze_csv_def v1_read_rows_append)
  ultimately show ?thesis using s by blast
qed

text \<open>
  C10, an instance: a row with the profit \<^verbatim>\<open>abc\<close> between two good rows. Both runs end
  with the error; without that row both give a report.
\<close>

theorem bad_number_aborts_witness:
  "ID row_bad_number \<noteq> ''Total'' \<and> Close_Time row_bad_number \<noteq> [] \<and>
   strptime example_lib (Close_Time row_bad_number) = Some (2025, 12, 24, 10, 30, 0) \<and>
   bad_number example_lib (Profit row_bad_number) \<and>
   \<not> isl (v2_read_rows example_lib rows_before []) \<and>
   \<not> isl (v1_read_rows example_lib rows_before []) \<and>
   v2_analyze_csv example_lib script_config (rows_before @ row_bad_number # rows_after)
     = Inl (FloatValueError ''abc'') \<and>
   v1_analyze_csv example_lib script_config (rows_before @ row_bad_number # rows_after)
     = Inl (FloatValueError ''abc'') \<and>
   \<not> isl (v2_analyze_csv example_lib script_config (rows_before @ rows_after)) \<and>
   \<not> isl (v1_analyze_csv example_lib script_config (rows_before @ rows_after))"
proof -
  have h1: "ID row_bad_number \<noteq> ''Total''" and h2: "Close_Time row_bad_number \<noteq> []"
    and h3: "strptime example_lib (Close_Time row_bad_number) = Some (2025, 12, 24, 10, 30, 0)"
    and h4: "bad_number example_lib (Profit row_bad_number)"
    by (simp_all add: row_bad_number_def lib_defs bad_number_def)
  obtain ts where h5: "v2_read_rows example_lib rows_before [] = Inr ts"
    by (simp add: rows_before_def lib_defs row_defs)
  obtain tbd where h6: "v1_read_rows example_lib rows_before [] = Inr tbd"
    by (simp add: rows_before_def lib_defs row_defs)
  have fields: "Profit row_bad_number = ''abc''" "Commission row_bad_number = []"
    "Swap row_bad_number = []"
    by (simp_all add: row_bad_number_def mk_row_def)
  from bad_number_aborts [OF h1 h2 h3 _ h5 h6, of script_config rows_after] h4
  obtain s where s: "s \<in> {Profit row_bad_number, Commission row_bad_number, Swap row_bad_number}"
      "bad_number example_lib s"
    and e2: "v2_analyze_csv example_lib script_config (rows_before @ row_bad_number # rows_after)
               = Inl (FloatValueError s)"
    and e1: "v1_analyze_csv example_lib script_config (rows_before @ row_bad_number # rows_after)
               = Inl (FloatValueError s)"
    by blast
  from s fields have "s = ''abc''" by (auto simp: bad_number_def)
  moreover have "\<not> isl (v2_analyze_csv example_lib script_config (rows_before @ rows_after))"
    "\<not> isl (v1_analyze_csv example_lib script_config (rows_before @ rows_after))"
    by (simp_all add: rows_before_def rows_after_def lib_defs row_defs
          v1_analyze_csv_def v2_analyze_csv_def)
  ultimately show ?thesis using h1 h2 h3 h4 h5 h6 e1 e2 by simp
qed

end
